theory Spec2Isabelle
  imports Main "HOL-Library.AList"
begin

section \<open>A shallow embedding of \<^verbatim>\<open>src/orm.py\<close>\<close>

text \<open>
  The module is a small object-relational mapper: field descriptors, a condition tree that
  lowers to parameterised SQL text, and a \<^verbatim>\<open>Model\<close> base class with
  \<^verbatim>\<open>create\<close>, \<^verbatim>\<open>delete\<close>, \<^verbatim>\<open>save\<close> and \<^verbatim>\<open>select\<close>.
  The embedding follows the module function by function. Mutation is explicit state
  passing, every \<^verbatim>\<open>raise\<close> is a value of type \<open>error\<close>, and the sqlite3
  connection (an external library) is a parameter, the \<open>gateway\<close>.
\<close>

subsection \<open>Data\<close>

text \<open>
  \<^verbatim>\<open>Field.py_type\<close> is a class object: \<^verbatim>\<open>int\<close>, \<^verbatim>\<open>str\<close>, a subclass of
  \<^verbatim>\<open>Model\<close>, or some other class (\<open>TOther\<close>, named). A subclass of \<^verbatim>\<open>Model\<close> is
  given by its \<^verbatim>\<open>__name__\<close> and its \<^verbatim>\<open>__annotations__\<close> in declaration order.
  Annotations are evaluated when the class body runs, so a class can only refer to classes
  that exist already: the declared types form a finite tree.
\<close>

datatype pytype = TInt | TStr | TOther string | TModel string "(string \<times> pytype) list"

datatype field = Field (name: string) (py_type: pytype)

type_synonym model = "string \<times> (string \<times> pytype) list"

text \<open>
  The Python values the mapper handles: \<^verbatim>\<open>None\<close>, integers, strings, field
  descriptors and instances of \<^verbatim>\<open>Model\<close> subclasses. An instance is its class and its
  \<^verbatim>\<open>_values\<close> dictionary; a dictionary is an association list in insertion order.
  Instances are modelled by value.
\<close>

datatype pyval = PNone | PInt int | PStr string | PField field
  | PInst model "(string \<times> pyval) list"

type_synonym model_instance = "model \<times> (string \<times> pyval) list"
type_synonym params = "(string \<times> pyval) list"
type_synonym row = "(string \<times> pyval) list"

datatype cond = Condition string field pyval | BoolCondition string cond cond

datatype error = KeyError | AttributeError | StopIteration | RuntimeError | StoreError string

subsection \<open>The store gateway and the global state\<close>

text \<open>
  \<^verbatim>\<open>sql_run\<close> and \<^verbatim>\<open>sql_select\<close> print a line and then call sqlite3. The
  printed lines are the \<open>out\<close> component of the state, \<^verbatim>\<open>counter\<close> is the
  module's \<^verbatim>\<open>itertools.count()\<close>, and \<open>db\<close> is the database behind the
  connection. What sqlite3 does with a statement is the gateway's business:
  \<open>run_write\<close> returns the new database and \<^verbatim>\<open>cur.lastrowid\<close>, \<open>run_read\<close>
  returns the rows of \<^verbatim>\<open>cur.fetchall()\<close>, and either may raise.
\<close>

datatype event = Running string "params option" | Selecting string "params option"

record 'db gateway =
  run_write :: "'db \<Rightarrow> string \<Rightarrow> params \<Rightarrow> error + ('db \<times> pyval)"
  run_read :: "'db \<Rightarrow> string \<Rightarrow> params \<Rightarrow> error + row list"

record 'db state =
  counter :: nat
  out :: "event list"
  db :: 'db

definition sql_run ::
  "'db gateway \<Rightarrow> string \<Rightarrow> params option \<Rightarrow> 'db state \<Rightarrow> (error + pyval) \<times> 'db state" where
  "sql_run gw stmt vals st =
     (let st1 = st\<lparr>out := out st @ [Running stmt vals]\<rparr>
      in case run_write gw (db st1) stmt (case vals of None \<Rightarrow> [] | Some d \<Rightarrow> d) of
           Inl e \<Rightarrow> (Inl e, st1)
         | Inr (d', rowid) \<Rightarrow> (Inr rowid, st1\<lparr>db := d'\<rparr>))"

definition sql_select ::
  "'db gateway \<Rightarrow> string \<Rightarrow> params option \<Rightarrow> 'db state \<Rightarrow> (error + row list) \<times> 'db state" where
  "sql_select gw stmt vals st =
     (let st1 = st\<lparr>out := out st @ [Selecting stmt vals]\<rparr>
      in (run_read gw (db st1) stmt (case vals of None \<Rightarrow> [] | Some d \<Rightarrow> d), st1))"

subsection \<open>Strings and dictionaries\<close>

text \<open>\<^verbatim>\<open>str(n)\<close> of a natural number, as the f-string formats \<^verbatim>\<open>next(counter)\<close>.\<close>

definition digit :: "nat \<Rightarrow> char" where
  "digit d = ''0123456789'' ! d"

function str :: "nat \<Rightarrow> string" where
  "str n = (if n < 10 then [digit n] else str (n div 10) @ [digit (n mod 10)])"
  by pat_completeness auto
termination
  by (relation "measure id") auto

declare str.simps [simp del]

text \<open>\<^verbatim>\<open>str.lower()\<close> on a class name, an ASCII identifier.\<close>

definition lower_char :: "char \<Rightarrow> char" where
  "lower_char c =
     (case map_of (zip ''ABCDEFGHIJKLMNOPQRSTUVWXYZ'' ''abcdefghijklmnopqrstuvwxyz'') c of
        Some l \<Rightarrow> l
      | None \<Rightarrow> c)"

text \<open>\<^verbatim>\<open>sep.join(xs)\<close>.\<close>

fun join :: "string \<Rightarrow> string list \<Rightarrow> string" where
  "join sep [] = []"
| "join sep [x] = x"
| "join sep (x # y # ys) = x @ sep @ join sep (y # ys)"

text \<open>
  \<^verbatim>\<open>d[k] = v\<close> is \<open>AList.update k v d\<close>: an existing key keeps its place and takes the
  new value, a new key goes to the end. \<^verbatim>\<open>{**d1, **d2}\<close> inserts the items of
  \<^verbatim>\<open>d2\<close> into a copy of \<^verbatim>\<open>d1\<close>, and \<^verbatim>\<open>d[k]\<close> raises on a missing key.
\<close>

definition dict_merge :: "(string \<times> 'v) list \<Rightarrow> (string \<times> 'v) list \<Rightarrow> (string \<times> 'v) list" where
  "dict_merge d1 d2 = fold (\<lambda>(k, v). AList.update k v) d2 d1"

definition dict_get :: "(string \<times> 'v) list \<Rightarrow> string \<Rightarrow> error + 'v" where
  "dict_get d k = (case map_of d k of None \<Rightarrow> Inl KeyError | Some v \<Rightarrow> Inr v)"

subsection \<open>Python predicates\<close>

fun issubclass_Model :: "pytype \<Rightarrow> bool" where
  "issubclass_Model (TModel n anns) = True"
| "issubclass_Model _ = False"

fun isinstance_int :: "pyval \<Rightarrow> bool" where
  "isinstance_int (PInt i) = True"
| "isinstance_int _ = False"

text \<open>Truth value testing, as \<^verbatim>\<open>if self.id:\<close> does it.\<close>

fun truthy :: "pyval \<Rightarrow> bool" where
  "truthy PNone = False"
| "truthy (PInt i) = (i \<noteq> 0)"
| "truthy (PStr s) = (s \<noteq> [])"
| "truthy (PField f) = True"
| "truthy (PInst m vals) = True"

subsection \<open>\<^verbatim>\<open>Field\<close>: \<^verbatim>\<open>sql_type\<close>, \<^verbatim>\<open>to_sql\<close>, \<^verbatim>\<open>__eq__\<close>, \<^verbatim>\<open>__get__\<close>\<close>

definition sql_type :: "field \<Rightarrow> error + string" where
  "sql_type f =
     (if issubclass_Model (py_type f) then Inr ''INTEGER''
      else case map_of [(TInt, ''INTEGER''), (TStr, ''TEXT'')] (py_type f) of
             None \<Rightarrow> Inl KeyError
           | Some s \<Rightarrow> Inr s)"

text \<open>
  \<^verbatim>\<open>value.id\<close> on an instance reads \<^verbatim>\<open>_values["id"]\<close> through the descriptor of
  \<^verbatim>\<open>id\<close>; on any other value of the model there is no such attribute.
\<close>

definition field_to_sql :: "field \<Rightarrow> pyval \<Rightarrow> error + pyval" where
  "field_to_sql f v =
     (if issubclass_Model (py_type f) then
        (case v of PInst m vals \<Rightarrow> dict_get vals ''id'' | _ \<Rightarrow> Inl AttributeError)
      else Inr v)"

definition field_eq :: "field \<Rightarrow> pyval \<Rightarrow> cond" where
  "field_eq f v = Condition ''='' f v"

text \<open>\<^verbatim>\<open>__get__\<close> with an instance (an instance of a \<^verbatim>\<open>Model\<close> subclass is truthy).\<close>

definition field_get :: "field \<Rightarrow> model_instance \<Rightarrow> error + pyval" where
  "field_get f inst = dict_get (snd inst) (name f)"

subsection \<open>\<^verbatim>\<open>Condition.to_sql\<close> and \<^verbatim>\<open>BoolCondition.to_sql\<close>\<close>

text \<open>
  The counter goes in and comes out: \<open>placeholder n\<close> is the token made from
  \<^verbatim>\<open>next(counter)\<close> when the counter stands at \<open>n\<close>, and \<^verbatim>\<open>cond1\<close> is lowered
  before \<^verbatim>\<open>cond2\<close>.
\<close>

definition placeholder :: "nat \<Rightarrow> string" where
  "placeholder n = ''var'' @ str n"

fun cond_to_sql :: "cond \<Rightarrow> nat \<Rightarrow> (string \<times> params) \<times> nat" where
  "cond_to_sql (Condition opr f v) n =
     ((name f @ '' '' @ opr @ '' :'' @ placeholder n, [(placeholder n, v)]), Suc n)"
| "cond_to_sql (BoolCondition opr cond1 cond2) n =
     (let ((sql1, vals1), n1) = cond_to_sql cond1 n;
          ((sql2, vals2), n2) = cond_to_sql cond2 n1
      in ((sql1 @ '' '' @ opr @ '' '' @ sql2, dict_merge vals1 vals2), n2))"

text \<open>\<^verbatim>\<open>__or__\<close>.\<close>

definition cond_or :: "cond \<Rightarrow> cond \<Rightarrow> cond" where
  "cond_or c other = BoolCondition ''OR'' c other"

subsection \<open>\<^verbatim>\<open>Model.__init_subclass__\<close>\<close>

text \<open>
  \<open>cls_name\<close> is \<^verbatim>\<open>cls._name\<close> and \<open>cls_cols\<close> is \<^verbatim>\<open>cls._cols\<close>, both computed
  once from the class. \<open>descriptor m k\<close> is the class attribute that \<^verbatim>\<open>setattr\<close> finds
  under the name \<open>k\<close>: the field of that name, and for \<^verbatim>\<open>id\<close> the integer field set last.
\<close>

definition cls_name :: "model \<Rightarrow> string" where
  "cls_name m = map lower_char (fst m) @ ''s''"

definition cls_cols :: "model \<Rightarrow> field list" where
  "cls_cols m = map (\<lambda>(k, t). Field k t) (snd m)"

definition descriptor :: "model \<Rightarrow> string \<Rightarrow> field option" where
  "descriptor m k =
     (if k = ''id'' then Some (Field ''id'' TInt)
      else map_option (Field k) (map_of (snd m) k))"

subsection \<open>\<^verbatim>\<open>Field.__set__\<close>, \<^verbatim>\<open>Model.select\<close> and \<^verbatim>\<open>Model.__init__\<close>\<close>

text \<open>
  The three call each other: assigning an integer to a reference field runs
  \<^verbatim>\<open>next(py_type.select(py_type.id == value))\<close>, which builds an instance from the first
  row, which assigns every column of the row.

  \<open>field_set\<close> returns the instance as the call leaves it, with the exception raised, if
  any. \<open>select_next\<close> is \<^verbatim>\<open>next(cls.select(where))\<close>: the generator runs up to its first
  \<^verbatim>\<open>yield\<close>, so only the first row is turned into an instance; no row raises
  \<^verbatim>\<open>StopIteration\<close>, and a \<^verbatim>\<open>StopIteration\<close> that escapes the generator's body
  becomes \<^verbatim>\<open>RuntimeError\<close> (PEP 479). \<open>init_kwargs\<close> is the loop of
  \<^verbatim>\<open>__init__\<close>; a key that names no descriptor sets a plain attribute of the
  instance, which the module never reads (column names are taken not to clash with the
  attributes of \<^verbatim>\<open>Model\<close> itself).
\<close>

text \<open>
  Termination: a reference field's class is declared before the class that holds the
  field, so every nested query is on a class deeper in the tree of declared types.
\<close>

fun tsize :: "pytype \<Rightarrow> nat" where
  "tsize (TModel n anns) = Suc (sum_list (map (\<lambda>(k, t). tsize t) anns))"
| "tsize _ = 0"

lemma tsize_member: "(k, t) \<in> set anns \<Longrightarrow> tsize t < tsize (TModel n anns)"
  by (induction anns) auto

lemma descriptor_tsize:
  "descriptor (n, anns) k = Some f \<Longrightarrow> tsize (py_type f) < tsize (TModel n anns)"
  by (auto simp: descriptor_def dest!: map_of_SomeD tsize_member[where n=n] split: if_splits)

function field_set ::
    "'db gateway \<Rightarrow> field \<Rightarrow> model_instance \<Rightarrow> pyval \<Rightarrow> 'db state
      \<Rightarrow> (error option \<times> model_instance) \<times> 'db state"
  and select_next ::
    "'db gateway \<Rightarrow> model \<Rightarrow> cond option \<Rightarrow> 'db state \<Rightarrow> (error + model_instance) \<times> 'db state"
  and model_init ::
    "'db gateway \<Rightarrow> model \<Rightarrow> row \<Rightarrow> 'db state \<Rightarrow> (error + model_instance) \<times> 'db state"
  and init_kwargs ::
    "'db gateway \<Rightarrow> model \<Rightarrow> row \<Rightarrow> model_instance \<Rightarrow> 'db state
      \<Rightarrow> (error + model_instance) \<times> 'db state"
where
  "field_set gw f inst v st =
     (case py_type f of
        TModel n anns \<Rightarrow>
          if isinstance_int v then
            (case select_next gw (n, anns) (Some (field_eq (Field ''id'' TInt) v)) st of
               (Inl e, st') \<Rightarrow> ((Some e, inst), st')
             | (Inr i, st') \<Rightarrow>
                 ((None, (fst inst, AList.update (name f) (PInst (fst i) (snd i)) (snd inst))), st'))
          else ((None, (fst inst, AList.update (name f) v (snd inst))), st)
      | _ \<Rightarrow> ((None, (fst inst, AList.update (name f) v (snd inst))), st))"
| "select_next gw m wh st =
     (let ((where_sql, vals), n) =
            (case wh of
               Some c \<Rightarrow> cond_to_sql c (counter st)
             | None \<Rightarrow> ((''1=1'', []), counter st));
          stmt = ''SELECT * FROM '' @ cls_name m @ '' WHERE '' @ where_sql
      in case sql_select gw stmt (Some vals) (st\<lparr>counter := n\<rparr>) of
           (Inl e, st1) \<Rightarrow> (Inl e, st1)
         | (Inr [], st1) \<Rightarrow> (Inl StopIteration, st1)
         | (Inr (r # rs), st1) \<Rightarrow>
             (case model_init gw m r st1 of
                (Inl e, st2) \<Rightarrow> (Inl (if e = StopIteration then RuntimeError else e), st2)
              | (Inr i, st2) \<Rightarrow> (Inr i, st2)))"
| "model_init gw m r st = init_kwargs gw m r (m, [(''id'', PNone)]) st"
| "init_kwargs gw m [] inst st = (Inr inst, st)"
| "init_kwargs gw m ((k, v) # kvs) inst st =
     (case descriptor m k of
        None \<Rightarrow> init_kwargs gw m kvs inst st
      | Some f \<Rightarrow>
          (case field_set gw f inst v st of
             ((Some e, inst'), st') \<Rightarrow> (Inl e, st')
           | ((None, inst'), st') \<Rightarrow> init_kwargs gw m kvs inst' st'))"
  by pat_completeness auto

termination
  apply (relation "measures [
    (\<lambda>x. case x of
        Inl (Inl (gw, f, inst, v, st)) \<Rightarrow> tsize (py_type f)
      | Inl (Inr (gw, m, wh, st)) \<Rightarrow> tsize (TModel (fst m) (snd m))
      | Inr (Inl (gw, m, r, st)) \<Rightarrow> tsize (TModel (fst m) (snd m))
      | Inr (Inr (gw, m, kvs, inst, st)) \<Rightarrow> tsize (TModel (fst m) (snd m))),
    (\<lambda>x. case x of
        Inl (Inl _) \<Rightarrow> 3
      | Inl (Inr _) \<Rightarrow> 2
      | Inr (Inl _) \<Rightarrow> 1
      | Inr (Inr _) \<Rightarrow> 0),
    (\<lambda>x. case x of
        Inr (Inr (gw, m, kvs, inst, st)) \<Rightarrow> length kvs
      | _ \<Rightarrow> 0)]")
  apply simp
  apply simp
  apply simp
  apply simp
  apply simp
  subgoal for gw m k v kvs inst st f
    using descriptor_tsize[of "fst m" "snd m" k f] by simp
  apply simp
  done

declare field_set.simps [simp del] select_next.simps [simp del]

subsection \<open>\<^verbatim>\<open>Model.delete\<close>, \<^verbatim>\<open>Model.create\<close> and \<^verbatim>\<open>Model.save\<close>\<close>

definition delete :: "'db gateway \<Rightarrow> model \<Rightarrow> 'db state \<Rightarrow> error option \<times> 'db state" where
  "delete gw m st =
     (case sql_run gw (''DROP TABLE IF EXISTS '' @ cls_name m) None st of
        (Inl e, st') \<Rightarrow> (Some e, st')
      | (Inr r, st') \<Rightarrow> (None, st'))"

text \<open>The generator inside \<^verbatim>\<open>join\<close>: one column definition per field, in order.\<close>

fun col_defs :: "field list \<Rightarrow> error + string list" where
  "col_defs [] = Inr []"
| "col_defs (f # fs) =
     (case sql_type f of
        Inl e \<Rightarrow> Inl e
      | Inr t \<Rightarrow>
          (case col_defs fs of
             Inl e \<Rightarrow> Inl e
           | Inr ds \<Rightarrow> Inr ((name f @ '' '' @ t) # ds)))"


text \<open>
  The dictionary comprehension of \<^verbatim>\<open>save\<close>: \<^verbatim>\<open>field.to_sql(getattr(self, name))\<close>
  for every column, in order (the keys of \<^verbatim>\<open>_cols\<close> are distinct).
\<close>

fun save_values :: "field list \<Rightarrow> model_instance \<Rightarrow> error + params" where
  "save_values [] inst = Inr []"
| "save_values (f # fs) inst =
     (case field_get f inst of
        Inl e \<Rightarrow> Inl e
      | Inr v \<Rightarrow>
          (case field_to_sql f v of
             Inl e \<Rightarrow> Inl e
           | Inr s \<Rightarrow>
               (case save_values fs inst of
                  Inl e \<Rightarrow> Inl e
                | Inr d \<Rightarrow> Inr ((name f, s) # d))))"

definition update_stmt :: "model \<Rightarrow> string" where
  "update_stmt m =
     ''UPDATE '' @ cls_name m @ '' SET ''
       @ join '', '' (map (\<lambda>f. name f @ '' = :'' @ name f) (cls_cols m)) @ '' WHERE id=:id''"

definition insert_stmt :: "model \<Rightarrow> string" where
  "insert_stmt m =
     ''INSERT INTO '' @ cls_name m @ '' (''
       @ join '', '' (map name (cls_cols m)) @ '') VALUES (''
       @ join '', '' (map (\<lambda>f. '':'' @ name f) (cls_cols m)) @ '')''"

definition save ::
  "'db gateway \<Rightarrow> model_instance \<Rightarrow> 'db state \<Rightarrow> (error option \<times> model_instance) \<times> 'db state" where
  "save gw inst st =
     (case save_values (cls_cols (fst inst)) inst of
        Inl e \<Rightarrow> ((Some e, inst), st)
      | Inr vals \<Rightarrow>
          (case dict_get (snd inst) ''id'' of
             Inl e \<Rightarrow> ((Some e, inst), st)
           | Inr i \<Rightarrow>
               if truthy i then
                 (case sql_run gw (update_stmt (fst inst))
                         (Some (dict_merge [(''id'', i)] vals)) st of
                    (Inl e, st') \<Rightarrow> ((Some e, inst), st')
                  | (Inr r, st') \<Rightarrow> ((None, inst), st'))
               else
                 (case sql_run gw (insert_stmt (fst inst)) (Some vals) st of
                    (Inl e, st') \<Rightarrow> ((Some e, inst), st')
                  | (Inr rowid, st') \<Rightarrow> field_set gw (Field ''id'' TInt) inst rowid st')))"

section \<open>Properties\<close>

subsection \<open>Tokens: \<^verbatim>\<open>str\<close> is injective\<close>

text \<open>A decimal numeral can be read back, so two counter values never give one token.\<close>

definition digit_val :: "char \<Rightarrow> nat" where
  "digit_val c = length (takeWhile (\<lambda>d. d \<noteq> c) ''0123456789'')"

lemma digit_val_digit: "d < 10 \<Longrightarrow> digit_val (digit d) = d"
  by (auto simp: numeral_eq_Suc less_Suc_eq digit_def digit_val_def)

definition str_val :: "string \<Rightarrow> nat" where
  "str_val s = foldl (\<lambda>a c. 10 * a + digit_val c) 0 s"

lemma str_val_str: "str_val (str n) = n"
proof (induction n rule: str.induct)
  case (1 n)
  show ?case
  proof (cases "n < 10")
    case True
    then show ?thesis
      by (subst str.simps) (simp add: str_val_def digit_val_digit)
  next
    case False
    with 1 have "str_val (str (n div 10)) = n div 10" by simp
    with False show ?thesis
      by (subst str.simps) (simp add: str_val_def digit_val_digit)
  qed
qed

lemma str_inject: "(str a = str b) = (a = b)"
  by (metis str_val_str)

lemma placeholder_inject: "(placeholder a = placeholder b) = (a = b)"
  by (simp add: placeholder_def str_inject)

subsection \<open>Merging dictionaries with disjoint keys\<close>

lemma update_fresh: "k \<notin> fst ` set d \<Longrightarrow> AList.update k v d = d @ [(k, v)]"
  by (induction d) auto

lemma dict_merge_disjoint:
  "distinct (map fst d2) \<Longrightarrow> fst ` set d1 \<inter> fst ` set d2 = {} \<Longrightarrow> dict_merge d1 d2 = d1 @ d2"
proof (induction d2 arbitrary: d1)
  case Nil
  then show ?case by (simp add: dict_merge_def)
next
  case (Cons kv d2)
  obtain k v where kv: "kv = (k, v)" by (cases kv)
  from Cons.prems have fresh: "k \<notin> fst ` set d1" by (auto simp: kv)
  have "dict_merge d1 (kv # d2) = dict_merge (d1 @ [(k, v)]) d2"
    by (simp add: dict_merge_def kv update_fresh[OF fresh])
  also have "\<dots> = (d1 @ [(k, v)]) @ d2"
    using Cons.prems by (intro Cons.IH) (auto simp: kv)
  finally show ?case by (simp add: kv)
qed

subsection \<open>Lowering a condition tree\<close>

text \<open>The three components of what \<^verbatim>\<open>to_sql\<close> returns, and the number of leaves.\<close>

fun leaves :: "cond \<Rightarrow> nat" where
  "leaves (Condition opr f v) = 1"
| "leaves (BoolCondition opr c1 c2) = leaves c1 + leaves c2"

definition to_sql_text :: "cond \<Rightarrow> nat \<Rightarrow> string" where
  "to_sql_text c n = fst (fst (cond_to_sql c n))"

definition to_sql_vals :: "cond \<Rightarrow> nat \<Rightarrow> params" where
  "to_sql_vals c n = snd (fst (cond_to_sql c n))"

definition to_sql_next :: "cond \<Rightarrow> nat \<Rightarrow> nat" where
  "to_sql_next c n = snd (cond_to_sql c n)"

lemma to_sql_text_Bool:
  "to_sql_text (BoolCondition opr c1 c2) n =
     to_sql_text c1 n @ '' '' @ opr @ '' '' @ to_sql_text c2 (to_sql_next c1 n)"
  by (simp add: to_sql_text_def to_sql_next_def split: prod.splits)

lemma to_sql_vals_Bool:
  "to_sql_vals (BoolCondition opr c1 c2) n =
     dict_merge (to_sql_vals c1 n) (to_sql_vals c2 (to_sql_next c1 n))"
  by (simp add: to_sql_vals_def to_sql_next_def split: prod.splits)

lemma to_sql_next_Bool:
  "to_sql_next (BoolCondition opr c1 c2) n = to_sql_next c2 (to_sql_next c1 n)"
  by (simp add: to_sql_next_def split: prod.splits)

lemma to_sql_next_leaves: "to_sql_next c n = n + leaves c"
proof (induction c arbitrary: n)
  case (Condition opr f v)
  show ?case by (simp add: to_sql_next_def)
next
  case (BoolCondition opr c1 c2)
  show ?case by (simp add: to_sql_next_Bool BoolCondition.IH)
qed

lemma to_sql_keys:
  "map fst (to_sql_vals c n) = map placeholder [n..<n + leaves c]
   \<and> (\<forall>opr c1 c2. c = BoolCondition opr c1 c2 \<longrightarrow>
        to_sql_vals c n = to_sql_vals c1 n @ to_sql_vals c2 (to_sql_next c1 n))"
proof (induction c arbitrary: n)
  case (Condition opr f v)
  show ?case by (simp add: to_sql_vals_def)
next
  case (BoolCondition opr c1 c2)
  let ?n1 = "to_sql_next c1 n"
  have n1: "?n1 = n + leaves c1" by (rule to_sql_next_leaves)
  have k1: "map fst (to_sql_vals c1 n) = map placeholder [n..<n + leaves c1]"
    using BoolCondition.IH(1) by blast
  have k2: "map fst (to_sql_vals c2 ?n1) = map placeholder [?n1..<?n1 + leaves c2]"
    using BoolCondition.IH(2) by blast
  have inj: "inj placeholder" by (simp add: inj_def placeholder_inject)
  have d2: "distinct (map fst (to_sql_vals c2 ?n1))"
    unfolding k2 by (simp add: distinct_map inj_on_def placeholder_inject)
  have "set (map placeholder [n..<n + leaves c1])
          \<inter> set (map placeholder [n + leaves c1..<n + leaves c1 + leaves c2]) = {}"
    by (auto simp: placeholder_inject)
  then have "set (map fst (to_sql_vals c1 n)) \<inter> set (map fst (to_sql_vals c2 ?n1)) = {}"
    using k1 k2 n1 by simp
  then have disj: "fst ` set (to_sql_vals c1 n) \<inter> fst ` set (to_sql_vals c2 ?n1) = {}"
    by simp
  have merged: "to_sql_vals (BoolCondition opr c1 c2) n = to_sql_vals c1 n @ to_sql_vals c2 ?n1"
    using dict_merge_disjoint[OF d2 disj] by (simp add: to_sql_vals_Bool)
  have "[n..<n + (leaves c1 + leaves c2)] = [n..<n + leaves c1] @ [n + leaves c1..<n + leaves c1 + leaves c2]"
    by (metis add.assoc le_add1 upt_add_eq_append)
  then show ?case
    using merged k1 k2 n1 by simp
qed

lemma to_sql_distinct: "distinct (map fst (to_sql_vals c n))"
  using to_sql_keys[of c n] by (simp add: distinct_map inj_on_def placeholder_inject)

lemma to_sql_length: "length (to_sql_vals c n) = leaves c"
proof -
  have "length (map fst (to_sql_vals c n)) = length (map placeholder [n..<n + leaves c])"
    using to_sql_keys[of c n] by simp
  then show ?thesis by simp
qed

lemma to_sql_vals_append:
  "to_sql_vals (BoolCondition opr c1 c2) n = to_sql_vals c1 n @ to_sql_vals c2 (to_sql_next c1 n)"
  using to_sql_keys[of "BoolCondition opr c1 c2" n] by blast

lemma to_sql_later_disjoint:
  assumes "to_sql_next c n \<le> n'"
  shows "set (map fst (to_sql_vals c n)) \<inter> set (map fst (to_sql_vals c' n')) = {}"
proof -
  have "set (map placeholder [n..<n + leaves c]) \<inter> set (map placeholder [n'..<n' + leaves c']) = {}"
    using assms by (auto simp: placeholder_inject to_sql_next_leaves)
  then show ?thesis
    using to_sql_keys[of c n] to_sql_keys[of c' n'] by simp
qed

text \<open>
  C1. Lowering a tree when the counter stands at \<open>n\<close> uses the tokens
  \<open>placeholder n, placeholder (n + 1), ...\<close>, one for each leaf, in order, and leaves the
  counter behind them. The keys of the parameter mapping are therefore distinct and as
  many as the tree has leaves: the mapping of an interior node is the mapping of the left
  subtree followed by the mapping of the right subtree, with no entry lost. Any
  lowering that starts at a later counter value shares no key with this one.
\<close>

theorem lowering_tokens_unique:
  "map fst (to_sql_vals c n) = map placeholder [n..<n + leaves c]
   \<and> distinct (map fst (to_sql_vals c n))
   \<and> length (to_sql_vals c n) = leaves c
   \<and> to_sql_next c n = n + leaves c
   \<and> to_sql_vals (BoolCondition opr c1 c2) n
        = to_sql_vals c1 n @ to_sql_vals c2 (to_sql_next c1 n)
   \<and> (to_sql_next c n \<le> n'
        \<longrightarrow> set (map fst (to_sql_vals c n)) \<inter> set (map fst (to_sql_vals c' n')) = {})"
proof (intro conjI impI)
  show "map fst (to_sql_vals c n) = map placeholder [n..<n + leaves c]"
    using to_sql_keys[of c n] by blast
  show "distinct (map fst (to_sql_vals c n))" by (rule to_sql_distinct)
  show "length (to_sql_vals c n) = leaves c" by (rule to_sql_length)
  show "to_sql_next c n = n + leaves c" by (rule to_sql_next_leaves)
  show "to_sql_vals (BoolCondition opr c1 c2) n
          = to_sql_vals c1 n @ to_sql_vals c2 (to_sql_next c1 n)"
    by (rule to_sql_vals_append)
  show "set (map fst (to_sql_vals c n)) \<inter> set (map fst (to_sql_vals c' n')) = {}"
    if "to_sql_next c n \<le> n'"
    using that by (rule to_sql_later_disjoint)
qed

text \<open>
  The module's own query, \<^verbatim>\<open>(Talk.duration == 60) | (Talk.duration == 45)\<close>, lowered
  first and then once more: two keys each time, and four different keys in all.
\<close>

theorem lowering_tokens_unique_witness:
  "to_sql_next (cond_or (field_eq (Field ''duration'' TInt) (PInt 60))
                        (field_eq (Field ''duration'' TInt) (PInt 45))) 0 \<le> 2
   \<and> to_sql_vals (cond_or (field_eq (Field ''duration'' TInt) (PInt 60))
                           (field_eq (Field ''duration'' TInt) (PInt 45))) 0
       = [(''var0'', PInt 60), (''var1'', PInt 45)]
   \<and> set (map fst (to_sql_vals (cond_or (field_eq (Field ''duration'' TInt) (PInt 60))
                                        (field_eq (Field ''duration'' TInt) (PInt 45))) 0))
       \<inter> set (map fst (to_sql_vals (cond_or (field_eq (Field ''duration'' TInt) (PInt 60))
                                          (field_eq (Field ''duration'' TInt) (PInt 45))) 2))
       = {}"
  using lowering_tokens_unique
    [of "cond_or (field_eq (Field ''duration'' TInt) (PInt 60))
                 (field_eq (Field ''duration'' TInt) (PInt 45))" 0
        "''OR''" "field_eq (Field ''duration'' TInt) (PInt 60)"
        "field_eq (Field ''duration'' TInt) (PInt 45)" 2
        "cond_or (field_eq (Field ''duration'' TInt) (PInt 60))
                 (field_eq (Field ''duration'' TInt) (PInt 45))"]
  by (simp add: cond_or_def field_eq_def to_sql_vals_def to_sql_next_def placeholder_def
      dict_merge_def str.simps digit_def)

text \<open>
  C2, as the code has it. An interior node lowers its left subtree, then its right
  subtree from where the left one left the counter, and returns the two texts with the
  operator between them, separated by single spaces and with nothing around either text,
  together with the entries of the left mapping followed by those of the right mapping.
\<close>

theorem bool_lowering:
  "cond_to_sql (BoolCondition opr c1 c2) n =
     ((to_sql_text c1 n @ '' '' @ opr @ '' '' @ to_sql_text c2 (to_sql_next c1 n),
       to_sql_vals c1 n @ to_sql_vals c2 (to_sql_next c1 n)),
      to_sql_next c2 (to_sql_next c1 n))"
proof -
  have "cond_to_sql (BoolCondition opr c1 c2) n =
          ((to_sql_text (BoolCondition opr c1 c2) n, to_sql_vals (BoolCondition opr c1 c2) n),
           to_sql_next (BoolCondition opr c1 c2) n)"
    by (simp only: to_sql_text_def to_sql_vals_def to_sql_next_def prod.collapse)
  then show ?thesis
    by (simp only: to_sql_text_Bool to_sql_vals_append to_sql_next_Bool)
qed

text \<open>
  The text the specification describes for an interior node, each side in parentheses.
\<close>

definition spec_bool_text :: "string \<Rightarrow> string \<Rightarrow> string \<Rightarrow> string" where
  "spec_bool_text l opr r = ''('' @ l @ '') '' @ opr @ '' ('' @ r @ '')''"

text \<open>
  The module's own query lowers to a text without parentheses, which is not the text with
  each side enclosed in parentheses.
\<close>

theorem bool_lowering_counterexample:
  "to_sql_text (cond_or (field_eq (Field ''duration'' TInt) (PInt 60))
                        (field_eq (Field ''duration'' TInt) (PInt 45))) 0
     = ''duration = :var0 OR duration = :var1''
   \<and> to_sql_text (cond_or (field_eq (Field ''duration'' TInt) (PInt 60))
                          (field_eq (Field ''duration'' TInt) (PInt 45))) 0
     \<noteq> spec_bool_text (to_sql_text (field_eq (Field ''duration'' TInt) (PInt 60)) 0) ''OR''
          (to_sql_text (field_eq (Field ''duration'' TInt) (PInt 45)) 1)"
  by (simp add: cond_or_def field_eq_def to_sql_text_def spec_bool_text_def placeholder_def
      str.simps digit_def)

text \<open>
  C6. A leaf lowered when the counter stands at \<open>n\<close> takes the token
  \<open>placeholder n\<close>, which is \<^verbatim>\<open>var\<close> followed by the decimal numeral of \<open>n\<close>,
  returns the text \<^verbatim>\<open><field> <op> :<token>\<close> with the one-entry mapping from the token
  to the value, and moves the counter on. The token is fresh: no other counter value gives
  the same token.
\<close>

theorem leaf_lowering:
  "cond_to_sql (Condition opr f v) n =
     ((name f @ '' '' @ opr @ '' :'' @ placeholder n, [(placeholder n, v)]), Suc n)
   \<and> placeholder n = ''var'' @ str n
   \<and> (placeholder n' = placeholder n) = (n' = n)"
  by (simp add: placeholder_inject) (simp add: placeholder_def)

theorem leaf_lowering_witness:
  "cond_to_sql (Condition ''='' (Field ''duration'' TInt) (PInt 45)) 12 =
     ((''duration = :var12'', [(''var12'', PInt 45)]), 13)"
  using leaf_lowering [of "''=''" "Field ''duration'' TInt" "PInt 45" 12 12]
  by (simp add: placeholder_def str.simps digit_def)

text \<open>
  C9. \<^verbatim>\<open>f == v\<close> on a field descriptor \<open>f\<close> is a leaf condition with the operator
  \<^verbatim>\<open>=\<close>, the descriptor and the value, whatever the value is: another descriptor, or
  the descriptor itself, is no exception. The result is a condition, never a truth value.
\<close>

theorem field_eq_condition:
  "field_eq f v = Condition ''='' f v
   \<and> field_eq f (PField g) = Condition ''='' f (PField g)
   \<and> field_eq f (PField f) = Condition ''='' f (PField f)"
  by (simp add: field_eq_def)

text \<open>
  C7. \<^verbatim>\<open>sql_type\<close> is \<^verbatim>\<open>INTEGER\<close> for a reference to a model class and for
  \<^verbatim>\<open>int\<close>, \<^verbatim>\<open>TEXT\<close> for \<^verbatim>\<open>str\<close>, and raises (the lookup's
  \<^verbatim>\<open>KeyError\<close>) for every other class; it raises for no other declared type.
\<close>

theorem sql_type_cases:
  "sql_type (Field k (TModel c anns)) = Inr ''INTEGER''
   \<and> sql_type (Field k TInt) = Inr ''INTEGER''
   \<and> sql_type (Field k TStr) = Inr ''TEXT''
   \<and> sql_type (Field k (TOther c')) = Inl KeyError
   \<and> (\<exists>e. sql_type f = Inl e) = (\<exists>c. py_type f = TOther c)"
proof -
  have "(\<exists>e. sql_type f = Inl e) = (\<exists>c. py_type f = TOther c)"
    by (cases "py_type f") (simp_all add: sql_type_def)
  then show ?thesis by (simp add: sql_type_def)
qed

subsection \<open>The module's own classes, and a small store\<close>

text \<open>
  \<^verbatim>\<open>Speaker\<close> and \<^verbatim>\<open>Talk\<close> as the module declares them. The store of the
  examples has one table: a write appends the bound parameters as a row under the next
  identifier and returns it, and a read returns the rows with distinct column names whose
  \<^verbatim>\<open>id\<close> is every bound parameter (all such rows when nothing is bound).
\<close>

definition Speaker :: model where
  "Speaker = (''Speaker'', [(''name'', TStr), (''company'', TStr)])"

definition Talk :: model where
  "Talk = (''Talk'', [(''title'', TStr), (''duration'', TInt),
                      (''speaker'', TModel ''Speaker'' [(''name'', TStr), (''company'', TStr)])])"

definition one_table_gw :: "row list gateway" where
  "one_table_gw =
     \<lparr>run_write = (\<lambda>d stmt ps. Inr (d @ [(''id'', PInt (int (length d) + 1)) # ps],
                                        PInt (int (length d) + 1))),
      run_read = (\<lambda>d stmt ps.
         Inr (filter (\<lambda>r. distinct (map fst r)
                          \<and> list_all (\<lambda>(p, v). map_of r ''id'' = Some v) ps) d))\<rparr>"

subsection \<open>\<^verbatim>\<open>Field.to_sql\<close>\<close>

text \<open>
  C3, as the code has it. For a reference field \<^verbatim>\<open>to_sql\<close> returns the identifier
  of the referenced instance, whatever it is: for an unsaved instance, whose identifier
  is \<^verbatim>\<open>None\<close>, it returns \<^verbatim>\<open>None\<close> and raises nothing. For a field that is not
  a reference it returns the value unchanged.
\<close>

theorem to_sql_reference:
  "(issubclass_Model (py_type f) \<and> map_of vals ''id'' = Some i
      \<longrightarrow> field_to_sql f (PInst m vals) = Inr i)
   \<and> (issubclass_Model (py_type f) \<and> map_of vals ''id'' = Some PNone
      \<longrightarrow> field_to_sql f (PInst m vals) = Inr PNone)
   \<and> (\<not> issubclass_Model (py_type f) \<longrightarrow> field_to_sql f v = Inr v)"
  by (simp add: field_to_sql_def dict_get_def)

theorem to_sql_reference_witness:
  "issubclass_Model (py_type (Field ''speaker'' (TModel ''Speaker'' [(''name'', TStr), (''company'', TStr)])))
   \<and> map_of [(''id'', PInt 1), (''name'', PStr ''Jonathan''), (''company'', PStr ''solute'')] ''id'' = Some (PInt 1)
   \<and> field_to_sql (Field ''speaker'' (TModel ''Speaker'' [(''name'', TStr), (''company'', TStr)]))
        (PInst Speaker [(''id'', PInt 1), (''name'', PStr ''Jonathan''), (''company'', PStr ''solute'')])
       = Inr (PInt 1)
   \<and> \<not> issubclass_Model (py_type (Field ''duration'' TInt))
   \<and> field_to_sql (Field ''duration'' TInt) (PInt 45) = Inr (PInt 45)"
  using to_sql_reference
    [of "Field ''speaker'' (TModel ''Speaker'' [(''name'', TStr), (''company'', TStr)])"
        "[(''id'', PInt 1), (''name'', PStr ''Jonathan''), (''company'', PStr ''solute'')]"
        "PInt 1" Speaker]
      to_sql_reference [of "Field ''duration'' TInt" "[]" PNone Speaker "PInt 45"]
  by simp

text \<open>
  A \<^verbatim>\<open>Speaker\<close> that was never saved, serialised through the \<^verbatim>\<open>speaker\<close> field
  of \<^verbatim>\<open>Talk\<close>: the result is \<^verbatim>\<open>None\<close>, not an error.
\<close>

theorem to_sql_reference_counterexample:
  "field_to_sql (Field ''speaker'' (TModel ''Speaker'' [(''name'', TStr), (''company'', TStr)]))
     (PInst Speaker [(''id'', PNone), (''name'', PStr ''Jonathan''), (''company'', PStr ''solute'')])
   = Inr PNone"
  by (simp add: field_to_sql_def dict_get_def)

subsection \<open>\<^verbatim>\<open>Model.create\<close>\<close>


lemma col_defs_error:
  "\<exists>f\<in>set fs. isl (sql_type f) \<Longrightarrow> isl (col_defs fs)"
  by (induction fs) (fastforce split: sum.splits)+





subsection \<open>\<^verbatim>\<open>Model.save\<close>\<close>

text \<open>
  What \<^verbatim>\<open>save\<close> does once the values are serialised: the branch is taken on the
  truth value of the identifier. A truthy identifier gives an \<^verbatim>\<open>UPDATE\<close> that binds
  the identifier and every field, and leaves the instance as it is; any other identifier
  gives an \<^verbatim>\<open>INSERT\<close> over the fields, and the instance takes the row identifier that
  the store returns.
\<close>

lemma save_truthy_id:
  assumes "save_values (cls_cols (fst inst)) inst = Inr vals"
    and "map_of (snd inst) ''id'' = Some i" and "truthy i"
  shows "save gw inst st =
     (case sql_run gw (update_stmt (fst inst)) (Some (dict_merge [(''id'', i)] vals)) st of
        (Inl e, st') \<Rightarrow> ((Some e, inst), st')
      | (Inr r, st') \<Rightarrow> ((None, inst), st'))"
  using assms by (simp add: save_def dict_get_def)

lemma save_falsy_id:
  assumes "save_values (cls_cols (fst inst)) inst = Inr vals"
    and "map_of (snd inst) ''id'' = Some i" and "\<not> truthy i"
  shows "save gw inst st =
     (case sql_run gw (insert_stmt (fst inst)) (Some vals) st of
        (Inl e, st') \<Rightarrow> ((Some e, inst), st')
      | (Inr rowid, st') \<Rightarrow> ((None, (fst inst, AList.update ''id'' rowid (snd inst))), st'))"
  using assms by (simp add: save_def dict_get_def field_set.simps split: prod.splits sum.splits)

text \<open>
  C4 at an instance whose identifier is \<open>0\<close>: assigned, so not null, but falsy.
  \<^verbatim>\<open>Speaker(id=0, name="Jonathan", company="solute").save()\<close> on an empty table runs an
  \<^verbatim>\<open>INSERT\<close>, not an \<^verbatim>\<open>UPDATE\<close>, and the identifier of the instance changes from
  \<open>0\<close> to the row identifier \<open>1\<close> that the store returns.
\<close>

theorem save_zero_id:
  "fst (save one_table_gw
          (Speaker, [(''id'', PInt 0), (''name'', PStr ''Jonathan''), (''company'', PStr ''solute'')])
          \<lparr>counter = 0, out = [], db = []\<rparr>)
     = (None, (Speaker, [(''id'', PInt 1), (''name'', PStr ''Jonathan''), (''company'', PStr ''solute'')]))
   \<and> out (snd (save one_table_gw
          (Speaker, [(''id'', PInt 0), (''name'', PStr ''Jonathan''), (''company'', PStr ''solute'')])
          \<lparr>counter = 0, out = [], db = []\<rparr>))
     = [Running ''INSERT INTO speakers (name, company) VALUES (:name, :company)''
          (Some [(''name'', PStr ''Jonathan''), (''company'', PStr ''solute'')])]"
  by (simp add: save_def Speaker_def cls_cols_def cls_name_def lower_char_def field_get_def
      dict_get_def field_to_sql_def insert_stmt_def sql_run_def one_table_gw_def field_set.simps)

subsection \<open>\<^verbatim>\<open>Field.__set__\<close> on a reference field\<close>

text \<open>
  Assigning the integer \<open>v\<close> to a reference to the class \<open>m\<close> when the counter stands
  at \<open>n\<close> runs the query \<open>id_query m n\<close> with the one parameter \<open>placeholder n\<close> bound
  to \<open>v\<close>. \<open>id_rows\<close> is what the store answers, and \<open>after_query\<close> is the state
  once the query has run: the counter moved on, the line printed.
\<close>

definition id_query :: "model \<Rightarrow> nat \<Rightarrow> string" where
  "id_query m n = ''SELECT * FROM '' @ cls_name m @ '' WHERE id = :'' @ placeholder n"

definition after_query :: "model \<Rightarrow> pyval \<Rightarrow> 'db state \<Rightarrow> 'db state" where
  "after_query m v st =
     st\<lparr>counter := Suc (counter st),
        out := out st @ [Selecting (id_query m (counter st)) (Some [(placeholder (counter st), v)])]\<rparr>"

definition id_rows :: "'db gateway \<Rightarrow> model \<Rightarrow> pyval \<Rightarrow> 'db state \<Rightarrow> error + row list" where
  "id_rows gw m v st =
     run_read gw (db st) (id_query m (counter st)) [(placeholder (counter st), v)]"

text \<open>The assignment, unfolded once: everything depends on the rows the store answers.\<close>

lemma select_next_by_id:
  "select_next gw m (Some (field_eq (Field ''id'' TInt) v)) st =
     (case id_rows gw m v st of
        Inl e \<Rightarrow> (Inl e, after_query m v st)
      | Inr [] \<Rightarrow> (Inl StopIteration, after_query m v st)
      | Inr (r # rs) \<Rightarrow>
          (case model_init gw m r (after_query m v st) of
             (Inl e, st2) \<Rightarrow> (Inl (if e = StopIteration then RuntimeError else e), st2)
           | (Inr i, st2) \<Rightarrow> (Inr i, st2)))"
  by (simp add: select_next.simps field_eq_def sql_select_def id_rows_def id_query_def
      after_query_def Let_def split: sum.splits list.splits)

lemma field_set_reference:
  assumes "py_type f = TModel c anns"
  shows "field_set gw f inst (PInt k) st =
     (case id_rows gw (c, anns) (PInt k) st of
        Inl e \<Rightarrow> ((Some e, inst), after_query (c, anns) (PInt k) st)
      | Inr [] \<Rightarrow> ((Some StopIteration, inst), after_query (c, anns) (PInt k) st)
      | Inr (r # rs) \<Rightarrow>
          (case model_init gw (c, anns) r (after_query (c, anns) (PInt k) st) of
             (Inl e, st2) \<Rightarrow> ((Some (if e = StopIteration then RuntimeError else e), inst), st2)
           | (Inr i, st2) \<Rightarrow>
               ((None, (fst inst, AList.update (name f) (PInst (fst i) (snd i)) (snd inst))), st2)))"
  using assms
  by (simp add: field_set.simps select_next_by_id split: sum.splits list.splits prod.splits)













text \<open>
  C10. Let \<open>f\<close> be a reference field to the class \<open>(c, anns)\<close>, assigned the integer
  \<open>k\<close>. When the store answers the query with no row, the assignment raises
  \<^verbatim>\<open>StopIteration\<close> and the instance is as it was. When the store answers with a first
  row \<open>r\<close> and any further rows \<open>rs\<close>, the further rows play no part: the outcome is that
  of building an instance from \<open>r\<close>, and when that returns an instance, the instance is
  stored under the field's name and nothing is raised.
\<close>

theorem assign_missing_or_many:
  assumes "py_type f = TModel c anns"
  shows "(id_rows gw (c, anns) (PInt k) st = Inr [] \<longrightarrow>
            field_set gw f inst (PInt k) st
              = ((Some StopIteration, inst), after_query (c, anns) (PInt k) st))
       \<and> (id_rows gw (c, anns) (PInt k) st = Inr (r # rs) \<longrightarrow>
            field_set gw f inst (PInt k) st =
              (case model_init gw (c, anns) r (after_query (c, anns) (PInt k) st) of
                 (Inl e, st2) \<Rightarrow>
                   ((Some (if e = StopIteration then RuntimeError else e), inst), st2)
               | (Inr i, st2) \<Rightarrow>
                   ((None, (fst inst, AList.update (name f) (PInst (fst i) (snd i)) (snd inst))),
                    st2)))
       \<and> (id_rows gw (c, anns) (PInt k) st = Inr (r # rs)
            \<and> model_init gw (c, anns) r (after_query (c, anns) (PInt k) st) = (Inr i, st2) \<longrightarrow>
            field_set gw f inst (PInt k) st
              = ((None, (fst inst, AList.update (name f) (PInst (fst i) (snd i)) (snd inst))), st2))"
  by (simp add: field_set_reference[OF assms])


definition jonathan :: row where
  "jonathan = [(''id'', PInt 1), (''name'', PStr ''Jonathan''), (''company'', PStr ''solute'')]"

definition namesake :: row where
  "namesake = [(''id'', PInt 1), (''name'', PStr ''Jon''), (''company'', PStr ''other'')]"

text \<open>
  An empty table, and a table with two rows under the identifier \<open>1\<close>.
\<close>

theorem assign_missing_or_many_witness:
  "py_type (Field ''speaker'' (TModel ''Speaker'' [(''name'', TStr), (''company'', TStr)]))
     = TModel ''Speaker'' [(''name'', TStr), (''company'', TStr)]
   \<and> id_rows one_table_gw Speaker (PInt 1) \<lparr>counter = 0, out = [], db = []\<rparr> = Inr []
   \<and> field_set one_table_gw (Field ''speaker'' (TModel ''Speaker'' [(''name'', TStr), (''company'', TStr)]))
        (Talk, [(''id'', PNone)]) (PInt 1) \<lparr>counter = 0, out = [], db = []\<rparr>
      = ((Some StopIteration, (Talk, [(''id'', PNone)])),
         \<lparr>counter = 1,
          out = [Selecting ''SELECT * FROM speakers WHERE id = :var0'' (Some [(''var0'', PInt 1)])],
          db = []\<rparr>)
   \<and> id_rows one_table_gw Speaker (PInt 1) \<lparr>counter = 0, out = [], db = [jonathan, namesake]\<rparr>
      = Inr [jonathan, namesake]
   \<and> field_set one_table_gw (Field ''speaker'' (TModel ''Speaker'' [(''name'', TStr), (''company'', TStr)]))
        (Talk, [(''id'', PNone)]) (PInt 1) \<lparr>counter = 0, out = [], db = [jonathan, namesake]\<rparr>
      = ((None, (Talk, [(''id'', PNone), (''speaker'', PInst Speaker jonathan)])),
         \<lparr>counter = 1,
          out = [Selecting ''SELECT * FROM speakers WHERE id = :var0'' (Some [(''var0'', PInt 1)])],
          db = [jonathan, namesake]\<rparr>)"
  using assign_missing_or_many
    [where f = "Field ''speaker'' (TModel ''Speaker'' [(''name'', TStr), (''company'', TStr)])"
       and c = "''Speaker''" and anns = "[(''name'', TStr), (''company'', TStr)]"
       and gw = one_table_gw and k = 1 and st = "\<lparr>counter = 0, out = [], db = []\<rparr>"
       and inst = "(Talk, [(''id'', PNone)])"]
    assign_missing_or_many
    [where f = "Field ''speaker'' (TModel ''Speaker'' [(''name'', TStr), (''company'', TStr)])"
       and c = "''Speaker''" and anns = "[(''name'', TStr), (''company'', TStr)]"
       and gw = one_table_gw and k = 1
       and st = "\<lparr>counter = 0, out = [], db = [jonathan, namesake]\<rparr>"
       and r = jonathan and rs = "[namesake]" and inst = "(Talk, [(''id'', PNone)])"]
  by (simp add: Speaker_def Talk_def jonathan_def namesake_def id_rows_def id_query_def
      after_query_def one_table_gw_def cls_name_def lower_char_def placeholder_def str.simps
      digit_def descriptor_def field_set.simps)




end
